theory Spec2Isabelle
  imports Main "HOL-Library.AList"
begin

section \<open>Text primitives of the host language\<close>

text \<open>
  A text is a \<^typ>\<open>string\<close>: a list of characters, each character read as the code
  point of the same number (0 to 255). The functions below are the string methods
  that \<^verbatim>\<open>resume_agent.py\<close> and \<^verbatim>\<open>gradio_resume_app.py\<close> call, written out
  on that range.
\<close>

definition newline :: char where
  "newline = CHR 0x0A"

text \<open>
  \<^verbatim>\<open>str.isspace\<close> on one character: tab, line feed, vertical tab, form feed,
  carriage return, the four separators 0x1C to 0x1F, space, next line (0x85) and
  no-break space (0xA0).
\<close>

definition isspace :: "char \<Rightarrow> bool" where
  "isspace c = (c \<in> {CHR 0x09, CHR 0x0A, CHR 0x0B, CHR 0x0C, CHR 0x0D, CHR 0x1C, CHR 0x1D,
                      CHR 0x1E, CHR 0x1F, CHR 0x20, CHR 0x85, CHR 0xA0})"

text \<open>\<^verbatim>\<open>s.strip()\<close>: whitespace removed at both ends.\<close>

definition strip :: "string \<Rightarrow> string" where
  "strip s = rev (dropWhile isspace (rev (dropWhile isspace s)))"

text \<open>
  \<^verbatim>\<open>s.lower()\<close>: the letters A to Z and the upper-case letters of 0xC0 to 0xDE
  (0xD7, the multiplication sign, is not a letter) move up by 32.
\<close>

definition lower_char :: "char \<Rightarrow> char" where
  "lower_char c =
     (let n = (of_char c :: nat)
      in if (65 \<le> n \<and> n \<le> 90) \<or> (192 \<le> n \<and> n \<le> 222 \<and> n \<noteq> 215)
         then char_of (n + 32) else c)"

definition lower :: "string \<Rightarrow> string" where
  "lower s = map lower_char s"

text \<open>
  \<^verbatim>\<open>s.split(sep)\<close> for a separator of one character: the pieces between the
  separators, empty pieces kept, so the result is never the empty list.
\<close>

fun split_on :: "char \<Rightarrow> string \<Rightarrow> string list" where
  "split_on sep [] = [[]]"
| "split_on sep (c # cs) =
     (if c = sep then [] # split_on sep cs
      else (case split_on sep cs of
              [] \<Rightarrow> [[c]]
            | piece # pieces \<Rightarrow> (c # piece) # pieces))"

text \<open>
  \<^verbatim>\<open>s.split()\<close> with no separator: the maximal runs of non-whitespace
  characters. The second argument is the run being read.
\<close>

fun split_ws_from :: "string \<Rightarrow> string \<Rightarrow> string list" where
  "split_ws_from [] cur = (if cur = [] then [] else [cur])"
| "split_ws_from (c # cs) cur =
     (if isspace c
      then (if cur = [] then split_ws_from cs [] else cur # split_ws_from cs [])
      else split_ws_from cs (cur @ [c]))"

definition split_ws :: "string \<Rightarrow> string list" where
  "split_ws s = split_ws_from s []"

text \<open>
  \<^verbatim>\<open>re.match(r'(a|b|c)', s)\<close> for literal alternatives: there is a match exactly
  when one of the alternatives is a prefix of \<open>s\<close>. The program only tests the match
  for truth.
\<close>

definition re_match_alts :: "string list \<Rightarrow> string \<Rightarrow> bool" where
  "re_match_alts alts s = list_ex (\<lambda>a. take (length a) s = a) alts"

section \<open>Data model\<close>

text \<open>
  Values produced by \<^verbatim>\<open>json.loads\<close>. A floating-point number is kept as the pair
  of a mantissa and a binary exponent, or one of the three special values that
  \<^verbatim>\<open>json.loads\<close> accepts; no arithmetic is done on it.
\<close>

datatype py_float = Finite int int | Infinity | NegInfinity | NaN

datatype json =
    JNull
  | JBool bool
  | JInt int
  | JFloat py_float
  | JStr string
  | JList "json list"
  | JDict "(string \<times> json) list"

record ResumeData =
  personal_info :: "(string \<times> string) list"
  summary :: string
  experiences :: "(string \<times> json) list list"
  skills :: "string list"
  education :: "(string \<times> json) list list"
  raw_text :: string

text \<open>The field \<^verbatim>\<open>keywords\<close> of the source is \<open>keywords_list\<close> here.\<close>

record JobDescription =
  title :: string
  company :: string
  description :: string
  requirements :: "string list"
  keywords_list :: "string list"

section \<open>Resume parser\<close>

datatype resume_section = SummarySection | ExperienceSection | SkillsSection | EducationSection

text \<open>
  The loop variables of \<^verbatim>\<open>ResumeAgent.parse_resume\<close> that the loop body assigns:
  \<^verbatim>\<open>current_section\<close>, \<^verbatim>\<open>summary\<close> and \<^verbatim>\<open>skills\<close>.
\<close>

record scan_state =
  current_section :: "resume_section option"
  summary_acc :: string
  skills_acc :: "string list"

text \<open>One iteration of \<^verbatim>\<open>for line in lines\<close>.\<close>

definition scan_line :: "scan_state \<Rightarrow> string \<Rightarrow> scan_state" where
  "scan_line st raw =
     (let line = strip raw in
      if re_match_alts [''summary'', ''profile'', ''objective''] (lower line)
        then st\<lparr>current_section := Some SummarySection\<rparr>
      else if re_match_alts [''experience'', ''work'', ''employment''] (lower line)
        then st\<lparr>current_section := Some ExperienceSection\<rparr>
      else if re_match_alts [''skills'', ''technical''] (lower line)
        then st\<lparr>current_section := Some SkillsSection\<rparr>
      else if re_match_alts [''education'', ''academic''] (lower line)
        then st\<lparr>current_section := Some EducationSection\<rparr>
      else if line \<noteq> [] \<and> current_section st \<noteq> None then
        (if current_section st = Some SummarySection
           then st\<lparr>summary_acc := summary_acc st @ line @ '' ''\<rparr>
         else if current_section st = Some SkillsSection
           then st\<lparr>skills_acc := skills_acc st @ map strip (split_on CHR '','' line)\<rparr>
         else st)
      else st)"

definition scan_init :: scan_state where
  "scan_init = \<lparr>current_section = None, summary_acc = [], skills_acc = []\<rparr>"

definition parse_resume :: "string \<Rightarrow> ResumeData" where
  "parse_resume resume_text =
     (let lines = split_on newline resume_text;
          st = foldl scan_line scan_init lines
      in \<lparr>personal_info = [(''name'', ''John Doe''), (''email'', ''john@email.com'')],
          summary = strip (summary_acc st),
          experiences = [],
          skills = skills_acc st,
          education = [],
          raw_text = resume_text\<rparr>)"

section \<open>Exceptions, the provider and the decoder\<close>

text \<open>
  An exception that the program can meet, with the text that \<^verbatim>\<open>str(e)\<close> gives.
  \<open>JSONDecodeError\<close> is the class that the units catch around \<^verbatim>\<open>json.loads\<close>;
  \<open>IndexError\<close> is what \<^verbatim>\<open>xs[0]\<close> raises on an empty list; \<open>OtherException\<close>
  stands for every other subclass of \<^verbatim>\<open>Exception\<close>.
\<close>

datatype exn = JSONDecodeError string | IndexError string | OtherException string

fun str_exn :: "exn \<Rightarrow> string" where
  "str_exn (JSONDecodeError m) = m"
| "str_exn (IndexError m) = m"
| "str_exn (OtherException m) = m"

text \<open>\<^verbatim>\<open>xs[0]\<close>.\<close>

fun index0 :: "'a list \<Rightarrow> exn + 'a" where
  "index0 [] = Inl (IndexError ''list index out of range'')"
| "index0 (x # xs) = Inr x"

text \<open>
  Every unit fills a fixed template with values of the resume and of the job
  description and sends the text to the provider. The templates render those values
  with \<^verbatim>\<open>repr\<close> and \<^verbatim>\<open>json.dumps\<close>, and the provider is opaque: a prompt is
  kept as the template's name with the values that the template interpolates, in
  the order of the source. A provider that is a function of the text is a function
  of these.
  \<^item> \<open>SummaryPrompt\<close>: personal info, experiences, skills, education; title, company and
    requirements of the job when there is one (\<^verbatim>\<open>SummaryAgent.execute\<close>).
  \<^item> \<open>ExperiencePrompt\<close>: experiences; title, company, description, requirements
    (\<^verbatim>\<open>ExperienceMatchingAgent.execute\<close>).
  \<^item> \<open>KeywordPrompt\<close>: summary, skills, experiences; description, requirements
    (\<^verbatim>\<open>KeywordOptimizationAgent.execute\<close>).
  \<^item> \<open>DesignPrompt\<close>: the industry word and the four lengths (\<^verbatim>\<open>DesignAgent.execute\<close>).
  \<^item> \<open>EditingPrompt\<close>: the text to review (\<^verbatim>\<open>EditingAgent.execute\<close>).
\<close>

datatype prompt =
    SummaryPrompt "(string \<times> string) list" "(string \<times> json) list list" "string list"
      "(string \<times> json) list list" "(string \<times> string \<times> string list) option"
  | ExperiencePrompt "(string \<times> json) list list" string string string "string list"
  | KeywordPrompt string "string list" "(string \<times> json) list list" string "string list"
  | DesignPrompt string nat nat nat nat
  | EditingPrompt string

text \<open>
  What the program changes outside its own variables: the credential that
  \<^verbatim>\<open>genai.configure\<close> stores for the process, and the prompts sent to the provider
  so far, oldest first.
\<close>

record world =
  credential :: string
  calls :: "prompt list"

text \<open>The module configures a placeholder credential when it is imported.\<close>

definition initial_world :: world where
  "initial_world = \<lparr>credential = ''YOUR_GEMINI_API_KEY'', calls = []\<rparr>"

text \<open>
  The libraries and the surroundings that the program calls, as parameters.
  \<^item> \<open>provider w p\<close>: \<^verbatim>\<open>self.model.generate_content(prompt)\<close> followed by
    \<^verbatim>\<open>response.text\<close>, in the world \<open>w\<close>: the text, or the exception raised.
  \<^item> \<open>loads s\<close>: \<^verbatim>\<open>json.loads(s)\<close>: the value, or the exception raised.
  \<^item> \<open>now_iso\<close>: \<^verbatim>\<open>datetime.now().isoformat()\<close>.
  \<^item> \<open>configure k\<close>: \<^verbatim>\<open>genai.configure(api_key=k)\<close>: the exception raised, if any.
  \<^item> \<open>format_results r\<close>: \<^verbatim>\<open>GradioResumeApp._format_results\<close>, the rendering of a
    finished report into the six displayed texts, or the exception raised while
    rendering. It renders arbitrary decoded values, floating-point numbers among
    them, and is not unfolded here.
  Writing to the console (\<^verbatim>\<open>print\<close>) is left out.
\<close>

datatype report_value = Str string | Resume ResumeData | Json json

type_synonym report = "(string \<times> report_value) list"

type_synonym display = "string \<times> string \<times> string \<times> string \<times> string \<times> string"

record env =
  provider :: "world \<Rightarrow> prompt \<Rightarrow> exn + string"
  loads :: "string \<Rightarrow> exn + json"
  now_iso :: string
  configure :: "string \<Rightarrow> exn option"
  format_results :: "report \<Rightarrow> exn + display"

section \<open>Text-generation client\<close>

text \<open>
  \<^verbatim>\<open>Agent.generate_response\<close>: one call to the provider; \<^verbatim>\<open>except Exception\<close>
  turns a failure into a text.
\<close>

definition generate_response :: "env \<Rightarrow> prompt \<Rightarrow> world \<Rightarrow> string \<times> world" where
  "generate_response E p w =
     (case provider E w p of
        Inr text \<Rightarrow> text
      | Inl e \<Rightarrow> ''Error generating response: '' @ str_exn e,
      w\<lparr>calls := calls w @ [p]\<rparr>)"

section \<open>Analysis units\<close>

text \<open>The local variable \<^verbatim>\<open>prompt\<close> of each unit.\<close>

definition summary_prompt :: "ResumeData \<Rightarrow> JobDescription option \<Rightarrow> prompt" where
  "summary_prompt resume_data job_desc =
     SummaryPrompt (personal_info resume_data) (experiences resume_data)
       (skills resume_data) (education resume_data)
       (map_option (\<lambda>j. (title j, company j, requirements j)) job_desc)"

definition experience_prompt :: "ResumeData \<Rightarrow> JobDescription \<Rightarrow> prompt" where
  "experience_prompt resume_data job_desc =
     ExperiencePrompt (experiences resume_data) (title job_desc) (company job_desc)
       (description job_desc) (requirements job_desc)"

definition keyword_prompt :: "ResumeData \<Rightarrow> JobDescription \<Rightarrow> prompt" where
  "keyword_prompt resume_data job_desc =
     KeywordPrompt (summary resume_data) (skills resume_data) (experiences resume_data)
       (description job_desc) (requirements job_desc)"

definition design_prompt :: "string \<Rightarrow> ResumeData \<Rightarrow> prompt" where
  "design_prompt industry resume_data =
     DesignPrompt industry (length (personal_info resume_data))
       (length (experiences resume_data)) (length (skills resume_data))
       (length (education resume_data))"

text \<open>
  The local variable \<^verbatim>\<open>industry\<close> of \<^verbatim>\<open>DesignAgent.execute\<close>: the first word of
  the job title, or \<open>General\<close> without a job description. A title with no word
  raises \<open>IndexError\<close>.
\<close>

definition design_industry :: "JobDescription option \<Rightarrow> exn + string" where
  "design_industry job_desc =
     (case job_desc of
        Some j \<Rightarrow> index0 (split_ws (title j))
      | None \<Rightarrow> Inr ''General'')"

text \<open>\<^verbatim>\<open>SummaryAgent.execute\<close>: the response is returned as it is.\<close>

definition summary_execute ::
  "env \<Rightarrow> ResumeData \<Rightarrow> JobDescription option \<Rightarrow> world \<Rightarrow> string \<times> world" where
  "summary_execute E resume_data job_desc w =
     generate_response E (summary_prompt resume_data job_desc) w"

text \<open>
  The four units that decode their response. Each catches \<open>JSONDecodeError\<close> and
  nothing else, and answers it with its own error object.
\<close>

definition experience_execute ::
  "env \<Rightarrow> ResumeData \<Rightarrow> JobDescription \<Rightarrow> world \<Rightarrow> (exn + json) \<times> world" where
  "experience_execute E resume_data job_desc w =
     (let (response, w') = generate_response E (experience_prompt resume_data job_desc) w
      in (case loads E response of
            Inr v \<Rightarrow> Inr v
          | Inl (JSONDecodeError m) \<Rightarrow>
              Inr (JDict [(''error'', JStr ''Failed to parse experience matching results'')])
          | Inl e \<Rightarrow> Inl e,
          w'))"

definition keyword_execute ::
  "env \<Rightarrow> ResumeData \<Rightarrow> JobDescription \<Rightarrow> world \<Rightarrow> (exn + json) \<times> world" where
  "keyword_execute E resume_data job_desc w =
     (let (response, w') = generate_response E (keyword_prompt resume_data job_desc) w
      in (case loads E response of
            Inr v \<Rightarrow> Inr v
          | Inl (JSONDecodeError m) \<Rightarrow>
              Inr (JDict [(''error'', JStr ''Failed to parse keyword optimization results'')])
          | Inl e \<Rightarrow> Inl e,
          w'))"

text \<open>
  \<^verbatim>\<open>DesignAgent.execute\<close>. The industry is computed before the provider is called.
\<close>

definition design_execute ::
  "env \<Rightarrow> ResumeData \<Rightarrow> JobDescription option \<Rightarrow> world \<Rightarrow> (exn + json) \<times> world" where
  "design_execute E resume_data job_desc w =
     (case design_industry job_desc of
        Inl e \<Rightarrow> (Inl e, w)
      | Inr industry \<Rightarrow>
          (let (response, w') = generate_response E (design_prompt industry resume_data) w
           in (case loads E response of
                 Inr v \<Rightarrow> Inr v
               | Inl (JSONDecodeError m) \<Rightarrow>
                   Inr (JDict [(''error'', JStr ''Failed to parse design suggestions'')])
               | Inl e \<Rightarrow> Inl e,
               w')))"

definition editing_execute :: "env \<Rightarrow> string \<Rightarrow> world \<Rightarrow> (exn + json) \<times> world" where
  "editing_execute E text w =
     (let (response, w') = generate_response E (EditingPrompt text) w
      in (case loads E response of
            Inr v \<Rightarrow> Inr v
          | Inl (JSONDecodeError m) \<Rightarrow>
              Inr (JDict [(''error'', JStr ''Failed to parse editing suggestions'')])
          | Inl e \<Rightarrow> Inl e,
          w'))"

section \<open>Orchestrator\<close>

text \<open>
  The job description that \<^verbatim>\<open>ResumeAgent.optimize_resume\<close> builds from a non-empty
  job text: fixed title and company, the text itself, and its pieces between
  full stops, trimmed, the empty ones dropped.
\<close>

definition make_job_description :: "string \<Rightarrow> JobDescription" where
  "make_job_description job_description =
     \<lparr>title = ''Target Position'',
      company = ''Target Company'',
      description = job_description,
      requirements = map strip (filter (\<lambda>req. strip req \<noteq> [])
                                  (split_on CHR ''.'' job_description)),
      keywords_list = []\<rparr>"

text \<open>
  An exception ends the sequence: \<open>then_do r f\<close> runs \<open>f\<close> on the value of \<open>r\<close> and
  passes an exception of \<open>r\<close> on, with the world as \<open>r\<close> left it.
\<close>

definition then_do ::
  "(exn + 'a) \<times> world \<Rightarrow> ('a \<Rightarrow> world \<Rightarrow> (exn + 'b) \<times> world) \<Rightarrow> (exn + 'b) \<times> world" where
  "then_do r f = (case r of (Inl e, w) \<Rightarrow> (Inl e, w) | (Inr x, w) \<Rightarrow> f x w)"

text \<open>
  \<^verbatim>\<open>ResumeAgent.optimize_resume\<close>. The report is a dictionary in insertion order;
  \<^verbatim>\<open>results[k] = v\<close> is \<^const>\<open>AList.update\<close>. A job text that is absent or empty
  gives no job description.
\<close>

definition optimize_resume ::
  "env \<Rightarrow> string \<Rightarrow> string option \<Rightarrow> world \<Rightarrow> (exn + report) \<times> world" where
  "optimize_resume E resume_text job_description w =
     (let resume_data = parse_resume resume_text;
          job_desc = (case job_description of
                        None \<Rightarrow> None
                      | Some jt \<Rightarrow> if jt \<noteq> [] then Some (make_job_description jt) else None);
          results = [(''timestamp'', Str (now_iso E)),
                     (''original_resume'', Resume resume_data)];
          (new_summary, w1) = summary_execute E resume_data job_desc w;
          results = AList.update ''new_summary'' (Str new_summary) results
      in then_do
           (case job_desc of
              None \<Rightarrow> (Inr results, w1)
            | Some jd \<Rightarrow>
                then_do (experience_execute E resume_data jd w1) (\<lambda>matching w2.
                then_do (keyword_execute E resume_data jd w2) (\<lambda>optimization w3.
                  (Inr (AList.update ''keyword_optimization'' (Json optimization)
                         (AList.update ''experience_matching'' (Json matching) results)),
                   w3))))
           (\<lambda>results w3.
              then_do (design_execute E resume_data job_desc w3) (\<lambda>design w4.
              then_do (editing_execute E resume_text w4) (\<lambda>editing w5.
                (Inr (AList.update ''editing_suggestions'' (Json editing)
                       (AList.update ''design_suggestions'' (Json design) results)),
                 w5)))))"

section \<open>Request handler of the web form\<close>

definition get_sample_resume :: string where
  "get_sample_resume = concat
     [''\<newline>'',
      ''    John Doe\<newline>'',
      ''    Software Engineer\<newline>'',
      ''    john.doe@email.com\<newline>'',
      ''    (555) 123-4567\<newline>'',
      ''    \<newline>'',
      ''    SUMMARY\<newline>'',
      ''    Experienced software developer with 5 years in web development and system design.\<newline>'',
      ''    \<newline>'',
      ''    EXPERIENCE\<newline>'',
      ''    Software Developer at TechCorp (2019-2024)\<newline>'',
      ''    - Developed web applications using Python and JavaScript\<newline>'',
      ''    - Worked with databases and APIs\<newline>'',
      ''    - Collaborated with team members on agile projects\<newline>'',
      ''    - Maintained code quality and performed code reviews\<newline>'',
      ''    \<newline>'',
      ''    Senior Developer Intern at StartupXYZ (2018-2019)\<newline>'',
      ''    - Built responsive web interfaces using React\<newline>'',
      ''    - Integrated third-party APIs and services\<newline>'',
      ''    - Participated in daily standups and sprint planning\<newline>'',
      ''    \<newline>'',
      ''    SKILLS\<newline>'',
      ''    Python, JavaScript, React, SQL, Git, Docker, AWS, REST APIs\<newline>'',
      ''    \<newline>'',
      ''    EDUCATION\<newline>'',
      ''    BS Computer Science, University XYZ (2019)\<newline>'',
      ''    GPA: 3.7/4.0\<newline>'',
      ''    '']"

definition get_sample_job_description :: string where
  "get_sample_job_description = concat
     [''\<newline>'',
      ''    Senior Python Developer position at InnovaTech\<newline>'',
      ''    \<newline>'',
      ''    We are looking for an experienced Python developer with expertise in Django, \<newline>'',
      ''    REST APIs, database optimization, and cloud technologies. The ideal candidate \<newline>'',
      ''    should have 3+ years of experience, strong problem-solving skills, and \<newline>'',
      ''    experience with AWS or Azure.\<newline>'',
      ''    \<newline>'',
      ''    Requirements:\<newline>'',
      ''    - 3+ years of Python development experience\<newline>'',
      ''    - Strong knowledge of Django framework\<newline>'',
      ''    - Experience with REST API development\<newline>'',
      ''    - Database design and optimization skills\<newline>'',
      ''    - Cloud platform experience (AWS/Azure)\<newline>'',
      ''    - Git version control\<newline>'',
      ''    - Agile development methodology\<newline>'',
      ''    - Strong communication skills\<newline>'',
      ''    '']"

text \<open>The attributes that \<^verbatim>\<open>GradioResumeApp.__init__\<close> sets and the handler reads.\<close>

record app =
  sample_resume :: string
  sample_job_desc :: string

definition init_app :: app where
  "init_app = \<lparr>sample_resume = get_sample_resume, sample_job_desc = get_sample_job_description\<rparr>"

text \<open>
  The messages of the handler start with the cross mark U+274C, the one character
  of the program above 255. It occurs in displayed messages only and is written as
  its three UTF-8 bytes.
\<close>

definition cross_mark :: string where
  "cross_mark = [CHR 0xE2, CHR 0x9D, CHR 0x8C]"

definition create_error_output :: "string \<Rightarrow> display" where
  "create_error_output error_message = (error_message, [], [], [], [], [])"

text \<open>
  \<^verbatim>\<open>GradioResumeApp._get_content\<close>. An uploaded file is given by what decoding or
  reading it yields: its text, or the exception raised, after which the pasted
  text is tried.
\<close>

definition get_content :: "(exn + string) option \<Rightarrow> string option \<Rightarrow> string \<Rightarrow> string" where
  "get_content file text sample =
     (case file of
        Some (Inr content) \<Rightarrow> content
      | _ \<Rightarrow> (case text of
                Some t \<Rightarrow> if t \<noteq> [] \<and> strip t \<noteq> [] then strip t else sample
              | None \<Rightarrow> sample))"

text \<open>\<^verbatim>\<open>GradioResumeApp.process_resume\<close>.\<close>

definition process_resume ::
  "app \<Rightarrow> env \<Rightarrow> (exn + string) option \<Rightarrow> string option \<Rightarrow> (exn + string) option \<Rightarrow>
   string option \<Rightarrow> string option \<Rightarrow> world \<Rightarrow> display \<times> world" where
  "process_resume self E resume_file resume_text job_file job_text api_key w =
     (case api_key of
        None \<Rightarrow>
          (create_error_output (cross_mark @ '' Please provide a valid Gemini API key''), w)
      | Some key \<Rightarrow>
          if key = [] \<or> strip key = [] then
            (create_error_output (cross_mark @ '' Please provide a valid Gemini API key''), w)
          else
            (case configure E (strip key) of
               Some e \<Rightarrow>
                 (create_error_output (cross_mark @ '' Invalid API key: '' @ str_exn e), w)
             | None \<Rightarrow>
                 (let w0 = w\<lparr>credential := strip key\<rparr>;
                      resume_content =
                        get_content resume_file resume_text (sample_resume self)
                  in if resume_content = [] then
                       (create_error_output (cross_mark @ '' No resume content provided''), w0)
                     else
                       (let job_content =
                              get_content job_file job_text (sample_job_desc self)
                        in (case optimize_resume E resume_content (Some job_content) w0 of
                              (Inl e, w1) \<Rightarrow>
                                (create_error_output
                                   (cross_mark @ '' Error during optimization: '' @ str_exn e),
                                 w1)
                            | (Inr results, w1) \<Rightarrow>
                                (case format_results E results of
                                   Inl e \<Rightarrow>
                                     (create_error_output
                                        (cross_mark @ '' Error during optimization: '' @ str_exn e),
                                      w1)
                                 | Inr shown \<Rightarrow> (shown, w1)))))))"

section \<open>Notions used in the statements\<close>

text \<open>
  A decoder that raises nothing but \<open>JSONDecodeError\<close>. \<^verbatim>\<open>json.loads\<close> is such a decoder
  on the texts that stay within the limits of the interpreter. Beyond them it raises
  other exceptions: \<^verbatim>\<open>ValueError\<close> on an integer of more than 4300 digits,
  \<^verbatim>\<open>RecursionError\<close> on brackets nested deeper than the recursion limit.
\<close>

definition only_decode_errors :: "(string \<Rightarrow> exn + json) \<Rightarrow> bool" where
  "only_decode_errors ld = (\<forall>s e. ld s = Inl e \<longrightarrow> (\<exists>m. e = JSONDecodeError m))"

fun is_dict :: "json \<Rightarrow> bool" where
  "is_dict (JDict kvs) = True"
| "is_dict v = False"

text \<open>
  A line is a section header when one of the four patterns of the parser matches
  it in lower case; the argument is the line after \<^verbatim>\<open>strip\<close>.
\<close>

definition is_section_header :: "string \<Rightarrow> bool" where
  "is_section_header line =
     re_match_alts [''summary'', ''profile'', ''objective'', ''experience'', ''work'',
                    ''employment'', ''skills'', ''technical'', ''education'', ''academic'']
       (lower line)"

text \<open>
  Reading the outcome of the orchestrator: the field names of the returned report in
  their order, and the value of one field. Both are \<open>None\<close> when an exception was
  raised instead.
\<close>

definition fields_of :: "(exn + report) \<times> world \<Rightarrow> string list option" where
  "fields_of outcome = (case fst outcome of Inr r \<Rightarrow> Some (map fst r) | Inl e \<Rightarrow> None)"

definition field_of :: "string \<Rightarrow> (exn + report) \<times> world \<Rightarrow> report_value option" where
  "field_of k outcome = (case fst outcome of Inr r \<Rightarrow> map_of r k | Inl e \<Rightarrow> None)"

text \<open>
  Stand-ins for the surroundings, to run the program on concrete inputs. The decoder
  \<open>stub_loads\<close> agrees with \<^verbatim>\<open>json.loads\<close> on the texts that the stand-in providers
  return: three JSON documents, and texts that are not JSON. The configuration step
  \<open>stub_configure\<close> refuses one key.
\<close>

definition stub_loads :: "string \<Rightarrow> exn + json" where
  "stub_loads s =
     (if s = ''[1, 2]'' then Inr (JList [JInt 1, JInt 2])
      else if s = ''{}'' then Inr (JDict [])
      else if s = ''42'' then Inr (JInt 42)
      else Inl (JSONDecodeError ''Expecting value: line 1 column 1 (char 0)''))"

definition stub_configure :: "string \<Rightarrow> exn option" where
  "stub_configure k = (if k = ''refused'' then Some (OtherException ''bad key format'') else None)"

definition stub_env :: "(world \<Rightarrow> prompt \<Rightarrow> exn + string) \<Rightarrow> env" where
  "stub_env p =
     \<lparr>provider = p,
      loads = stub_loads,
      now_iso = ''2024-05-01T12:00:00'',
      configure = stub_configure,
      format_results = (\<lambda>r. Inr (''shown'', [], [], [], [], []))\<rparr>"

definition demo_resume :: string where
  "demo_resume = ''SUMMARY\<newline>Builds compilers\<newline>SKILLS\<newline>OCaml, Coq''"

definition demo_job :: string where
  "demo_job = ''Knows OCaml. Ships on time.''"

text \<open>A provider that answers every prompt with the same text, and one that always fails.\<close>

definition fixed_provider :: "string \<Rightarrow> world \<Rightarrow> prompt \<Rightarrow> exn + string" where
  "fixed_provider text w p = Inr text"

definition failing_provider :: "world \<Rightarrow> prompt \<Rightarrow> exn + string" where
  "failing_provider w p = Inl (OtherException ''429 quota exceeded'')"

text \<open>A provider whose answer to the editing prompt is not JSON; every other answer is.\<close>

fun editing_garbled_provider :: "world \<Rightarrow> prompt \<Rightarrow> exn + string" where
  "editing_garbled_provider w (EditingPrompt text) = Inr ''Sure! Here is the review''"
| "editing_garbled_provider w p = Inr ''{}''"

text \<open>
  A text of 4301 digits, and a decoder that agrees with \<^verbatim>\<open>json.loads\<close> on it:
  \<^verbatim>\<open>json.loads('1' * 4301)\<close> raises \<^verbatim>\<open>ValueError\<close> with the message below.
  \<^verbatim>\<open>JSONDecodeError\<close> is a subclass of \<^verbatim>\<open>ValueError\<close>, not the other way round, so
  this exception is an \<open>OtherException\<close>.
\<close>

definition many_digits :: string where
  "many_digits = replicate 4301 CHR ''1''"

definition digit_limit_loads :: "string \<Rightarrow> exn + json" where
  "digit_limit_loads s =
     (if s = many_digits
      then Inl (OtherException
        ''Exceeds the limit (4300 digits) for integer string conversion: value has 4301 digits; use sys.set_int_max_str_digits() to increase the limit'')
      else stub_loads s)"

definition digit_limit_env :: "(world \<Rightarrow> prompt \<Rightarrow> exn + string) \<Rightarrow> env" where
  "digit_limit_env p = (stub_env p)\<lparr>loads := digit_limit_loads\<rparr>"

text \<open>A provider whose answer to the editing prompt is the text of 4301 digits.\<close>

fun editing_digits_provider :: "world \<Rightarrow> prompt \<Rightarrow> exn + string" where
  "editing_digits_provider w (EditingPrompt body) = Inr many_digits"
| "editing_digits_provider w p = Inr ''{}''"

text \<open>
  A provider that refuses every call made under the credential \<open>sk-wrong\<close>, in
  surroundings whose configuration step accepts that credential (as
  \<^verbatim>\<open>genai.configure\<close> does: it stores the key and checks nothing). The rendering
  shows the new summary in the first view and a fixed label in each other view.
\<close>

definition refusing_provider :: "world \<Rightarrow> prompt \<Rightarrow> exn + string" where
  "refusing_provider w p =
     (if credential w = ''sk-wrong'' then Inl (OtherException ''401 API key not valid'')
      else Inr ''{}'')"


section \<open>Auxiliary facts\<close>

lemma then_do_Inl: "then_do (Inl e, w) f = (Inl e, w)"
  by (simp add: then_do_def)

lemma then_do_Inr: "then_do (Inr x, w) f = f x w"
  by (simp add: then_do_def)

lemma decode_total:
  assumes "only_decode_errors ld"
  shows "\<exists>v. (case ld s of Inr v \<Rightarrow> Inr v
              | Inl (JSONDecodeError m) \<Rightarrow> Inr (JDict [(''error'', JStr msg)])
              | Inl e \<Rightarrow> Inl e) = (Inr v :: exn + json)"
proof (cases "ld s")
  case (Inl e)
  with assms obtain m where "e = JSONDecodeError m"
    unfolding only_decode_errors_def by blast
  with Inl show ?thesis by simp
next
  case (Inr v)
  then show ?thesis by simp
qed

lemma experience_execute_total:
  assumes "only_decode_errors (loads E)"
  shows "\<exists>v w'. experience_execute E rd jd w = (Inr v, w')"
  using decode_total [OF assms]
  by (simp add: experience_execute_def split: prod.split)

lemma keyword_execute_total:
  assumes "only_decode_errors (loads E)"
  shows "\<exists>v w'. keyword_execute E rd jd w = (Inr v, w')"
  using decode_total [OF assms]
  by (simp add: keyword_execute_def split: prod.split)

lemma editing_execute_total:
  assumes "only_decode_errors (loads E)"
  shows "\<exists>v w'. editing_execute E text w = (Inr v, w')"
  using decode_total [OF assms]
  by (simp add: editing_execute_def split: prod.split)

lemma design_execute_total:
  assumes "only_decode_errors (loads E)"
    and "jd = None \<or> (\<exists>j. jd = Some j \<and> split_ws (title j) \<noteq> [])"
  shows "\<exists>v w'. design_execute E rd jd w = (Inr v, w')"
proof -
  from assms(2) obtain industry where "design_industry jd = Inr industry"
    by (cases jd) (auto simp: design_industry_def neq_Nil_conv)
  then show ?thesis
    using decode_total [OF assms(1)]
    by (simp add: design_execute_def split: prod.split)
qed

lemma title_has_word: "split_ws (title (make_job_description jt)) \<noteq> []"
  by (simp add: make_job_description_def split_ws_def isspace_def)

lemma stub_loads_contract: "only_decode_errors stub_loads"
  by (simp add: only_decode_errors_def stub_loads_def)

lemma many_digits_not_object: "many_digits \<noteq> ''{}''"
proof
  assume "many_digits = ''{}''"
  then have "length many_digits = length ''{}''" by (rule arg_cong)
  then show False by (simp add: many_digits_def)
qed

lemma digit_limit_loads_digits:
  "digit_limit_loads many_digits =
     Inl (OtherException
        ''Exceeds the limit (4300 digits) for integer string conversion: value has 4301 digits; use sys.set_int_max_str_digits() to increase the limit'')"
  by (simp add: digit_limit_loads_def)

lemma digit_limit_loads_object: "digit_limit_loads ''{}'' = Inr (JDict [])"
  using many_digits_not_object by (simp add: digit_limit_loads_def stub_loads_def)

lemma design_industry_target:
  "design_industry (Some (make_job_description jt)) = Inr ''Target''"
  by (simp add: design_industry_def make_job_description_def split_ws_def isspace_def)

lemma refusing_provider_refuses:
  "credential w = ''sk-wrong'' \<Longrightarrow>
     refusing_provider w p = Inl (OtherException ''401 API key not valid'')"
  by (simp add: refusing_provider_def)

text \<open>
  Under the decoder's contract the orchestrator runs every scheduled unit, in order,
  and files each result under its name. With a job text that is not empty:
\<close>

lemma optimize_resume_with_job:
  assumes ld: "only_decode_errors (loads E)" and jt: "jt \<noteq> []"
  shows "\<exists>s x k d ed w1 w2 w3 w4 w5.
           summary_execute E (parse_resume text) (Some (make_job_description jt)) w = (s, w1) \<and>
           experience_execute E (parse_resume text) (make_job_description jt) w1 = (Inr x, w2) \<and>
           keyword_execute E (parse_resume text) (make_job_description jt) w2 = (Inr k, w3) \<and>
           design_execute E (parse_resume text) (Some (make_job_description jt)) w3 = (Inr d, w4) \<and>
           editing_execute E text w4 = (Inr ed, w5) \<and>
           optimize_resume E text (Some jt) w =
             (Inr [(''timestamp'', Str (now_iso E)),
                   (''original_resume'', Resume (parse_resume text)),
                   (''new_summary'', Str s),
                   (''experience_matching'', Json x),
                   (''keyword_optimization'', Json k),
                   (''design_suggestions'', Json d),
                   (''editing_suggestions'', Json ed)], w5)"
proof -
  let ?rd = "parse_resume text" and ?jd = "make_job_description jt"
  obtain s w1 where s: "summary_execute E ?rd (Some ?jd) w = (s, w1)"
    by (cases "summary_execute E ?rd (Some ?jd) w")
  obtain x w2 where x: "experience_execute E ?rd ?jd w1 = (Inr x, w2)"
    using experience_execute_total [OF ld] by blast
  obtain k w3 where k: "keyword_execute E ?rd ?jd w2 = (Inr k, w3)"
    using keyword_execute_total [OF ld] by blast
  obtain d w4 where d: "design_execute E ?rd (Some ?jd) w3 = (Inr d, w4)"
    using design_execute_total [OF ld, of "Some ?jd"] title_has_word by blast
  obtain ed w5 where ed: "editing_execute E text w4 = (Inr ed, w5)"
    using editing_execute_total [OF ld] by blast
  have "optimize_resume E text (Some jt) w =
             (Inr [(''timestamp'', Str (now_iso E)),
                   (''original_resume'', Resume ?rd),
                   (''new_summary'', Str s),
                   (''experience_matching'', Json x),
                   (''keyword_optimization'', Json k),
                   (''design_suggestions'', Json d),
                   (''editing_suggestions'', Json ed)], w5)"
    using jt by (simp add: optimize_resume_def s x k d ed then_do_Inr)
  with s x k d ed show ?thesis by blast
qed

text \<open>With no job text, or an empty one:\<close>

lemma optimize_resume_without_job:
  assumes ld: "only_decode_errors (loads E)" and job: "job = None \<or> job = Some []"
  shows "\<exists>s d ed w1 w2 w3.
           summary_execute E (parse_resume text) None w = (s, w1) \<and>
           design_execute E (parse_resume text) None w1 = (Inr d, w2) \<and>
           editing_execute E text w2 = (Inr ed, w3) \<and>
           optimize_resume E text job w =
             (Inr [(''timestamp'', Str (now_iso E)),
                   (''original_resume'', Resume (parse_resume text)),
                   (''new_summary'', Str s),
                   (''design_suggestions'', Json d),
                   (''editing_suggestions'', Json ed)], w3)"
proof -
  let ?rd = "parse_resume text"
  obtain s w1 where s: "summary_execute E ?rd None w = (s, w1)"
    by (cases "summary_execute E ?rd None w")
  obtain d w2 where d: "design_execute E ?rd None w1 = (Inr d, w2)"
    using design_execute_total [OF ld, of None] by blast
  obtain ed w3 where ed: "editing_execute E text w2 = (Inr ed, w3)"
    using editing_execute_total [OF ld] by blast
  have "optimize_resume E text job w =
             (Inr [(''timestamp'', Str (now_iso E)),
                   (''original_resume'', Resume ?rd),
                   (''new_summary'', Str s),
                   (''design_suggestions'', Json d),
                   (''editing_suggestions'', Json ed)], w3)"
    using job by (auto simp add: optimize_resume_def s d ed then_do_Inr)
  with s d ed show ?thesis by blast
qed

section \<open>The report and its fields\<close>

text \<open>
  Claim C1. For every resume text and optional job text, \<open>optimize_resume\<close> returns a
  report whose fields are \<open>timestamp\<close>, \<open>original_resume\<close>, \<open>new_summary\<close>,
  \<open>design_suggestions\<close> and \<open>editing_suggestions\<close>, together with
  \<open>experience_matching\<close> and \<open>keyword_optimization\<close> exactly when a job text is
  supplied and is not empty, and no other field. The report is returned for every
  provider, under the contract of the decoder.
\<close>

theorem report_fields:
  assumes "only_decode_errors (loads E)"
  shows "fields_of (optimize_resume E resume_text job_text w) =
           Some ([''timestamp'', ''original_resume'', ''new_summary''] @
                 (if job_text \<noteq> None \<and> job_text \<noteq> Some []
                  then [''experience_matching'', ''keyword_optimization''] else []) @
                 [''design_suggestions'', ''editing_suggestions''])"
proof (cases "job_text \<noteq> None \<and> job_text \<noteq> Some []")
  case True
  then obtain jt where jt: "job_text = Some jt" "jt \<noteq> []" by auto
  from optimize_resume_with_job [OF assms jt(2), of resume_text w] jt True
  show ?thesis by (auto simp: fields_of_def)
next
  case False
  then have "job_text = None \<or> job_text = Some []" by auto
  from optimize_resume_without_job [OF assms this, of resume_text w] False
  show ?thesis by (auto simp: fields_of_def)
qed

theorem report_fields_witness:
  "only_decode_errors (loads (stub_env (fixed_provider ''{}''))) \<and>
   fields_of (optimize_resume (stub_env (fixed_provider ''{}'')) demo_resume (Some demo_job)
                initial_world) =
     Some [''timestamp'', ''original_resume'', ''new_summary'', ''experience_matching'',
           ''keyword_optimization'', ''design_suggestions'', ''editing_suggestions''] \<and>
   fields_of (optimize_resume (stub_env (fixed_provider ''{}'')) demo_resume (Some [])
                initial_world) =
     Some [''timestamp'', ''original_resume'', ''new_summary'',
           ''design_suggestions'', ''editing_suggestions''] \<and>
   fields_of (optimize_resume (stub_env (fixed_provider ''{}'')) demo_resume None
                initial_world) =
     Some [''timestamp'', ''original_resume'', ''new_summary'',
           ''design_suggestions'', ''editing_suggestions'']"
proof -
  have c: "only_decode_errors (loads (stub_env (fixed_provider ''{}'')))"
    by (simp add: stub_env_def stub_loads_contract)
  have j: "demo_job \<noteq> []"
    by (simp add: demo_job_def)
  from c j report_fields [OF c, of demo_resume "Some demo_job" initial_world]
       report_fields [OF c, of demo_resume "Some []" initial_world]
       report_fields [OF c, of demo_resume None initial_world]
  show ?thesis by simp
qed

section \<open>Rejected credentials\<close>




section \<open>Decoding in the units\<close>

text \<open>
  Each of the four decoding units (experience matching, keyword optimization,
  design, editing) does one of three things with the text that the client returns
  for its prompt: when the text decodes, it returns exactly the decoded value; when
  decoding raises \<open>JSONDecodeError\<close>, it returns the object with the single key
  \<open>error\<close> and its own message; when decoding raises any other exception, it raises
  that exception to its caller.
\<close>

lemma json_units_three_outcomes:
  "(\<forall>response w'. generate_response E (experience_prompt resume_data job_desc) w = (response, w') \<longrightarrow>
      (\<forall>v. loads E response = Inr v \<longrightarrow>
           experience_execute E resume_data job_desc w = (Inr v, w')) \<and>
      (\<forall>m. loads E response = Inl (JSONDecodeError m) \<longrightarrow>
           experience_execute E resume_data job_desc w =
             (Inr (JDict [(''error'', JStr ''Failed to parse experience matching results'')]), w')) \<and>
      (\<forall>e. loads E response = Inl e \<and> (\<forall>m. e \<noteq> JSONDecodeError m) \<longrightarrow>
           experience_execute E resume_data job_desc w = (Inl e, w'))) \<and>
   (\<forall>response w'. generate_response E (keyword_prompt resume_data job_desc) w = (response, w') \<longrightarrow>
      (\<forall>v. loads E response = Inr v \<longrightarrow>
           keyword_execute E resume_data job_desc w = (Inr v, w')) \<and>
      (\<forall>m. loads E response = Inl (JSONDecodeError m) \<longrightarrow>
           keyword_execute E resume_data job_desc w =
             (Inr (JDict [(''error'', JStr ''Failed to parse keyword optimization results'')]), w')) \<and>
      (\<forall>e. loads E response = Inl e \<and> (\<forall>m. e \<noteq> JSONDecodeError m) \<longrightarrow>
           keyword_execute E resume_data job_desc w = (Inl e, w'))) \<and>
   (\<forall>industry response w'.
      design_industry optional_job = Inr industry \<and>
      generate_response E (design_prompt industry resume_data) w = (response, w') \<longrightarrow>
      (\<forall>v. loads E response = Inr v \<longrightarrow>
           design_execute E resume_data optional_job w = (Inr v, w')) \<and>
      (\<forall>m. loads E response = Inl (JSONDecodeError m) \<longrightarrow>
           design_execute E resume_data optional_job w =
             (Inr (JDict [(''error'', JStr ''Failed to parse design suggestions'')]), w')) \<and>
      (\<forall>e. loads E response = Inl e \<and> (\<forall>m. e \<noteq> JSONDecodeError m) \<longrightarrow>
           design_execute E resume_data optional_job w = (Inl e, w'))) \<and>
   (\<forall>response w'. generate_response E (EditingPrompt text) w = (response, w') \<longrightarrow>
      (\<forall>v. loads E response = Inr v \<longrightarrow>
           editing_execute E text w = (Inr v, w')) \<and>
      (\<forall>m. loads E response = Inl (JSONDecodeError m) \<longrightarrow>
           editing_execute E text w =
             (Inr (JDict [(''error'', JStr ''Failed to parse editing suggestions'')]), w')) \<and>
      (\<forall>e. loads E response = Inl e \<and> (\<forall>m. e \<noteq> JSONDecodeError m) \<longrightarrow>
           editing_execute E text w = (Inl e, w')))"
  by (auto simp add: experience_execute_def keyword_execute_def design_execute_def
      editing_execute_def split: exn.splits)

text \<open>
  Claim C3 says that a decoding unit returns the decoded value when the client's
  text decodes and its error object when it does not, and never raises. The code
  breaks the last part: each unit catches \<open>JSONDecodeError\<close> only. On the response of
  4301 digits, which \<^verbatim>\<open>json.loads\<close> refuses with a \<^verbatim>\<open>ValueError\<close>, each of the four
  units raises that exception to its caller instead of returning its error object.
\<close>

theorem json_units_raise_on_other_decoder_error:
  "fst (generate_response (digit_limit_env (fixed_provider many_digits)) (EditingPrompt demo_resume)
          initial_world) = many_digits \<and>
   loads (digit_limit_env (fixed_provider many_digits)) many_digits =
     Inl (OtherException
        ''Exceeds the limit (4300 digits) for integer string conversion: value has 4301 digits; use sys.set_int_max_str_digits() to increase the limit'') \<and>
   fst (experience_execute (digit_limit_env (fixed_provider many_digits))
          (parse_resume demo_resume) (make_job_description demo_job) initial_world) =
     Inl (OtherException
        ''Exceeds the limit (4300 digits) for integer string conversion: value has 4301 digits; use sys.set_int_max_str_digits() to increase the limit'') \<and>
   fst (keyword_execute (digit_limit_env (fixed_provider many_digits))
          (parse_resume demo_resume) (make_job_description demo_job) initial_world) =
     Inl (OtherException
        ''Exceeds the limit (4300 digits) for integer string conversion: value has 4301 digits; use sys.set_int_max_str_digits() to increase the limit'') \<and>
   fst (design_execute (digit_limit_env (fixed_provider many_digits))
          (parse_resume demo_resume) None initial_world) =
     Inl (OtherException
        ''Exceeds the limit (4300 digits) for integer string conversion: value has 4301 digits; use sys.set_int_max_str_digits() to increase the limit'') \<and>
   fst (editing_execute (digit_limit_env (fixed_provider many_digits)) demo_resume
          initial_world) =
     Inl (OtherException
        ''Exceeds the limit (4300 digits) for integer string conversion: value has 4301 digits; use sys.set_int_max_str_digits() to increase the limit'')"
proof -
  let ?E = "digit_limit_env (fixed_provider many_digits)"
  have g: "generate_response ?E q w = (many_digits, w\<lparr>calls := calls w @ [q]\<rparr>)" for q w
    by (simp add: generate_response_def digit_limit_env_def stub_env_def fixed_provider_def)
  have l: "loads ?E = digit_limit_loads"
    by (simp add: digit_limit_env_def)
  show ?thesis
    by (simp add: experience_execute_def keyword_execute_def design_execute_def
        editing_execute_def design_industry_def g l digit_limit_loads_digits)
qed

section \<open>The report is always complete\<close>

text \<open>
  With a decoder that raises nothing but \<open>JSONDecodeError\<close>, \<open>optimize_resume\<close>
  returns a complete report for every resume text, job text, provider and starting
  world: every scheduled unit runs, in the fixed order, none raises, and each field
  holds the result of its own unit, whatever the other units returned (a decoded
  value or an error object).
\<close>

lemma optimize_resume_reports_under_contract:
  assumes "only_decode_errors (loads E)"
  shows "(jt \<noteq> [] \<longrightarrow>
           (\<exists>s x k d ed w1 w2 w3 w4 w5.
              summary_execute E (parse_resume text) (Some (make_job_description jt)) w = (s, w1) \<and>
              experience_execute E (parse_resume text) (make_job_description jt) w1 = (Inr x, w2) \<and>
              keyword_execute E (parse_resume text) (make_job_description jt) w2 = (Inr k, w3) \<and>
              design_execute E (parse_resume text) (Some (make_job_description jt)) w3 = (Inr d, w4) \<and>
              editing_execute E text w4 = (Inr ed, w5) \<and>
              optimize_resume E text (Some jt) w =
                (Inr [(''timestamp'', Str (now_iso E)),
                      (''original_resume'', Resume (parse_resume text)),
                      (''new_summary'', Str s),
                      (''experience_matching'', Json x),
                      (''keyword_optimization'', Json k),
                      (''design_suggestions'', Json d),
                      (''editing_suggestions'', Json ed)], w5))) \<and>
         (job = None \<or> job = Some [] \<longrightarrow>
           (\<exists>s d ed w1 w2 w3.
              summary_execute E (parse_resume text) None w = (s, w1) \<and>
              design_execute E (parse_resume text) None w1 = (Inr d, w2) \<and>
              editing_execute E text w2 = (Inr ed, w3) \<and>
              optimize_resume E text job w =
                (Inr [(''timestamp'', Str (now_iso E)),
                      (''original_resume'', Resume (parse_resume text)),
                      (''new_summary'', Str s),
                      (''design_suggestions'', Json d),
                      (''editing_suggestions'', Json ed)], w3)))"
  using optimize_resume_with_job [OF assms, of jt "text" w]
        optimize_resume_without_job [OF assms, of job "text" w]
  by (intro conjI impI)

text \<open>
  An instance: the answer to the editing prompt is not JSON, the editing field holds
  the error object, and every other field is filled.
\<close>

lemma garbled_editing_still_reports:
  "only_decode_errors (loads (stub_env editing_garbled_provider)) \<and>
   demo_job \<noteq> [] \<and>
   fst (optimize_resume (stub_env editing_garbled_provider) demo_resume (Some demo_job)
          initial_world) =
     Inr [(''timestamp'', Str ''2024-05-01T12:00:00''),
          (''original_resume'', Resume (parse_resume demo_resume)),
          (''new_summary'', Str ''{}''),
          (''experience_matching'', Json (JDict [])),
          (''keyword_optimization'', Json (JDict [])),
          (''design_suggestions'', Json (JDict [])),
          (''editing_suggestions'',
             Json (JDict [(''error'', JStr ''Failed to parse editing suggestions'')]))] \<and>
   fst (optimize_resume (stub_env editing_garbled_provider) demo_resume None initial_world) =
     Inr [(''timestamp'', Str ''2024-05-01T12:00:00''),
          (''original_resume'', Resume (parse_resume demo_resume)),
          (''new_summary'', Str ''{}''),
          (''design_suggestions'', Json (JDict [])),
          (''editing_suggestions'',
             Json (JDict [(''error'', JStr ''Failed to parse editing suggestions'')]))]"
proof -
  let ?E = "stub_env editing_garbled_provider"
  have c: "only_decode_errors (loads ?E)"
    by (simp add: stub_env_def stub_loads_contract)
  have j: "demo_job \<noteq> []"
    by (simp add: demo_job_def)
  have su: "summary_execute ?E rd jd w = (''{}'', w\<lparr>calls := calls w @ [summary_prompt rd jd]\<rparr>)"
    for rd jd w
    by (simp add: summary_execute_def generate_response_def stub_env_def summary_prompt_def)
  have ex: "experience_execute ?E rd jd w =
              (Inr (JDict []), w\<lparr>calls := calls w @ [experience_prompt rd jd]\<rparr>)" for rd jd w
    by (simp add: experience_execute_def generate_response_def stub_env_def
        experience_prompt_def stub_loads_def)
  have ke: "keyword_execute ?E rd jd w =
              (Inr (JDict []), w\<lparr>calls := calls w @ [keyword_prompt rd jd]\<rparr>)" for rd jd w
    by (simp add: keyword_execute_def generate_response_def stub_env_def
        keyword_prompt_def stub_loads_def)
  have ed: "editing_execute ?E body w =
              (Inr (JDict [(''error'', JStr ''Failed to parse editing suggestions'')]),
               w\<lparr>calls := calls w @ [EditingPrompt body]\<rparr>)" for body w
    by (simp add: editing_execute_def generate_response_def stub_env_def stub_loads_def)
  have de: "design_execute ?E rd None w =
              (Inr (JDict []), w\<lparr>calls := calls w @ [design_prompt ''General'' rd]\<rparr>)"
           "design_execute ?E rd (Some (make_job_description jt)) w =
              (Inr (JDict []), w\<lparr>calls := calls w @ [design_prompt ''Target'' rd]\<rparr>)"
    for rd jt w
    by (simp_all add: design_execute_def design_industry_def make_job_description_def
        split_ws_def isspace_def generate_response_def stub_env_def design_prompt_def
        stub_loads_def)
  have n: "now_iso ?E = ''2024-05-01T12:00:00''"
    by (simp add: stub_env_def)
  from optimize_resume_reports_under_contract [OF c, of demo_job demo_resume initial_world None]
  have a: "fst (optimize_resume ?E demo_resume (Some demo_job) initial_world) =
     Inr [(''timestamp'', Str ''2024-05-01T12:00:00''),
          (''original_resume'', Resume (parse_resume demo_resume)),
          (''new_summary'', Str ''{}''),
          (''experience_matching'', Json (JDict [])),
          (''keyword_optimization'', Json (JDict [])),
          (''design_suggestions'', Json (JDict [])),
          (''editing_suggestions'',
             Json (JDict [(''error'', JStr ''Failed to parse editing suggestions'')]))]"
    and b: "fst (optimize_resume ?E demo_resume None initial_world) =
     Inr [(''timestamp'', Str ''2024-05-01T12:00:00''),
          (''original_resume'', Resume (parse_resume demo_resume)),
          (''new_summary'', Str ''{}''),
          (''design_suggestions'', Json (JDict [])),
          (''editing_suggestions'',
             Json (JDict [(''error'', JStr ''Failed to parse editing suggestions'')]))]"
    using j by (simp_all add: su ex ke ed de n)
  from c j a b show ?thesis by simp
qed

text \<open>
  Claim C4 says that \<open>optimize_resume\<close> always returns a complete report, that no
  failure of a unit raises past it, and that it never aborts the sequence because
  one unit failed. The code breaks it: the units catch \<open>JSONDecodeError\<close> only and
  \<open>optimize_resume\<close> catches nothing. When the answer to the editing prompt is the
  text of 4301 digits, all five prompts are sent, the editing unit raises, and
  \<open>optimize_resume\<close> raises instead of returning the four results it has; when every
  answer is that text, it raises after two prompts. No report is returned, with or
  without a job text, and the handler shows its one error message.
\<close>

theorem optimize_resume_aborts_on_other_decoder_error:
  "optimize_resume (digit_limit_env editing_digits_provider) demo_resume (Some demo_job)
     initial_world =
     (Inl (OtherException
        ''Exceeds the limit (4300 digits) for integer string conversion: value has 4301 digits; use sys.set_int_max_str_digits() to increase the limit''),
      initial_world\<lparr>calls :=
        [summary_prompt (parse_resume demo_resume) (Some (make_job_description demo_job)),
         experience_prompt (parse_resume demo_resume) (make_job_description demo_job),
         keyword_prompt (parse_resume demo_resume) (make_job_description demo_job),
         design_prompt ''Target'' (parse_resume demo_resume),
         EditingPrompt demo_resume]\<rparr>) \<and>
   fields_of (optimize_resume (digit_limit_env editing_digits_provider) demo_resume
                (Some demo_job) initial_world) = None \<and>
   fields_of (optimize_resume (digit_limit_env editing_digits_provider) demo_resume None
                initial_world) = None \<and>
   optimize_resume (digit_limit_env (fixed_provider many_digits)) demo_resume (Some demo_job)
     initial_world =
     (Inl (OtherException
        ''Exceeds the limit (4300 digits) for integer string conversion: value has 4301 digits; use sys.set_int_max_str_digits() to increase the limit''),
      initial_world\<lparr>calls :=
        [summary_prompt (parse_resume demo_resume) (Some (make_job_description demo_job)),
         experience_prompt (parse_resume demo_resume) (make_job_description demo_job)]\<rparr>) \<and>
   fst (process_resume init_app (digit_limit_env editing_digits_provider)
          (Some (Inr demo_resume)) None (Some (Inr demo_job)) None (Some ''sk-valid'')
          initial_world) =
     create_error_output (cross_mark @ '' Error during optimization: '' @
        ''Exceeds the limit (4300 digits) for integer string conversion: value has 4301 digits; use sys.set_int_max_str_digits() to increase the limit'')"
proof -
  let ?E = "digit_limit_env editing_digits_provider"
  let ?F = "digit_limit_env (fixed_provider many_digits)"
  have j: "demo_job \<noteq> []"
    by (simp add: demo_job_def)
  have r: "demo_resume \<noteq> []"
    by (simp add: demo_resume_def)
  have c0: "calls initial_world = []"
    by (simp add: initial_world_def)
  have l: "loads (digit_limit_env q) = digit_limit_loads" for q
    by (simp add: digit_limit_env_def)
  have p: "provider (digit_limit_env q) = q" for q
    by (simp add: digit_limit_env_def stub_env_def)
  have cf: "configure (digit_limit_env q) ''sk-valid'' = None" for q
    by (simp add: digit_limit_env_def stub_env_def stub_configure_def)
  have k: "strip ''sk-valid'' = ''sk-valid''"
    by (simp add: strip_def isspace_def)
  have a: "optimize_resume ?E demo_resume (Some demo_job) initial_world =
     (Inl (OtherException
        ''Exceeds the limit (4300 digits) for integer string conversion: value has 4301 digits; use sys.set_int_max_str_digits() to increase the limit''),
      initial_world\<lparr>calls :=
        [summary_prompt (parse_resume demo_resume) (Some (make_job_description demo_job)),
         experience_prompt (parse_resume demo_resume) (make_job_description demo_job),
         keyword_prompt (parse_resume demo_resume) (make_job_description demo_job),
         design_prompt ''Target'' (parse_resume demo_resume),
         EditingPrompt demo_resume]\<rparr>)"
    using j
    by (simp add: optimize_resume_def summary_execute_def experience_execute_def
        keyword_execute_def design_execute_def editing_execute_def generate_response_def
        summary_prompt_def experience_prompt_def keyword_prompt_def design_prompt_def
        design_industry_target l p digit_limit_loads_digits digit_limit_loads_object
        then_do_Inr then_do_Inl c0 Let_def)
  have b: "fields_of (optimize_resume ?E demo_resume None initial_world) = None"
    by (simp add: fields_of_def optimize_resume_def summary_execute_def
        design_execute_def editing_execute_def generate_response_def
        summary_prompt_def design_prompt_def design_industry_def
        l p digit_limit_loads_digits digit_limit_loads_object
        then_do_Inr then_do_Inl Let_def)
  have c: "optimize_resume ?F demo_resume (Some demo_job) initial_world =
     (Inl (OtherException
        ''Exceeds the limit (4300 digits) for integer string conversion: value has 4301 digits; use sys.set_int_max_str_digits() to increase the limit''),
      initial_world\<lparr>calls :=
        [summary_prompt (parse_resume demo_resume) (Some (make_job_description demo_job)),
         experience_prompt (parse_resume demo_resume) (make_job_description demo_job)]\<rparr>)"
    using j
    by (simp add: optimize_resume_def summary_execute_def experience_execute_def
        generate_response_def fixed_provider_def
        l p digit_limit_loads_digits then_do_Inl c0 Let_def)
  have d: "fst (process_resume init_app ?E (Some (Inr demo_resume)) None (Some (Inr demo_job))
                  None (Some ''sk-valid'') initial_world) =
     create_error_output (cross_mark @ '' Error during optimization: '' @
        ''Exceeds the limit (4300 digits) for integer string conversion: value has 4301 digits; use sys.set_int_max_str_digits() to increase the limit'')"
    using j r
    by (simp add: process_resume_def k cf get_content_def
        optimize_resume_def summary_execute_def experience_execute_def
        keyword_execute_def design_execute_def editing_execute_def generate_response_def
        summary_prompt_def experience_prompt_def keyword_prompt_def design_prompt_def
        design_industry_target l p digit_limit_loads_digits digit_limit_loads_object
        then_do_Inr then_do_Inl Let_def)
  from a b c d show ?thesis
    by (simp add: fields_of_def)
qed

section \<open>Provider failures\<close>

text \<open>
  Claim C5. For every prompt and every exception raised by the provider call,
  \<open>generate_response\<close> raises nothing: it returns the text
  \<open>Error generating response: \<close> followed by the text of the exception. No JSON
  document starts with that prefix; with a decoder that rejects every text starting
  with it, each decoding unit that sent the prompt returns its error object.
\<close>

theorem generate_response_absorbs_failure:
  assumes "provider E w p = Inl e"
  shows "generate_response E p w =
           (''Error generating response: '' @ str_exn e, w\<lparr>calls := calls w @ [p]\<rparr>) \<and>
         ((\<forall>s. \<exists>m. loads E (''Error generating response: '' @ s) = Inl (JSONDecodeError m)) \<longrightarrow>
            (p = experience_prompt resume_data job_desc \<longrightarrow>
               fst (experience_execute E resume_data job_desc w) =
                 Inr (JDict [(''error'', JStr ''Failed to parse experience matching results'')])) \<and>
            (p = keyword_prompt resume_data job_desc \<longrightarrow>
               fst (keyword_execute E resume_data job_desc w) =
                 Inr (JDict [(''error'', JStr ''Failed to parse keyword optimization results'')])) \<and>
            (design_industry optional_job = Inr industry \<and> p = design_prompt industry resume_data \<longrightarrow>
               fst (design_execute E resume_data optional_job w) =
                 Inr (JDict [(''error'', JStr ''Failed to parse design suggestions'')])) \<and>
            (p = EditingPrompt body \<longrightarrow>
               fst (editing_execute E body w) =
                 Inr (JDict [(''error'', JStr ''Failed to parse editing suggestions'')])))"
proof (intro conjI impI)
  show g: "generate_response E p w =
           (''Error generating response: '' @ str_exn e, w\<lparr>calls := calls w @ [p]\<rparr>)"
    using assms by (simp add: generate_response_def)
  assume "\<forall>s. \<exists>m. loads E (''Error generating response: '' @ s) = Inl (JSONDecodeError m)"
  then obtain m where
    m: "loads E (''Error generating response: '' @ str_exn e) = Inl (JSONDecodeError m)"
    by blast
  {
    assume "p = experience_prompt resume_data job_desc"
    with g m show "fst (experience_execute E resume_data job_desc w) =
                 Inr (JDict [(''error'', JStr ''Failed to parse experience matching results'')])"
      by (simp add: experience_execute_def)
  next
    assume "p = keyword_prompt resume_data job_desc"
    with g m show "fst (keyword_execute E resume_data job_desc w) =
                 Inr (JDict [(''error'', JStr ''Failed to parse keyword optimization results'')])"
      by (simp add: keyword_execute_def)
  next
    assume "design_industry optional_job = Inr industry \<and> p = design_prompt industry resume_data"
    with g m show "fst (design_execute E resume_data optional_job w) =
                 Inr (JDict [(''error'', JStr ''Failed to parse design suggestions'')])"
      by (simp add: design_execute_def)
  next
    assume "p = EditingPrompt body"
    with g m show "fst (editing_execute E body w) =
                 Inr (JDict [(''error'', JStr ''Failed to parse editing suggestions'')])"
      by (simp add: editing_execute_def)
  }
qed

theorem generate_response_absorbs_failure_witness:
  "provider (stub_env failing_provider) initial_world (EditingPrompt demo_resume) =
     Inl (OtherException ''429 quota exceeded'') \<and>
   (\<forall>s. \<exists>m. loads (stub_env failing_provider) (''Error generating response: '' @ s) =
             Inl (JSONDecodeError m)) \<and>
   generate_response (stub_env failing_provider) (EditingPrompt demo_resume) initial_world =
     (''Error generating response: 429 quota exceeded'',
      initial_world\<lparr>calls := [EditingPrompt demo_resume]\<rparr>) \<and>
   fst (editing_execute (stub_env failing_provider) demo_resume initial_world) =
     Inr (JDict [(''error'', JStr ''Failed to parse editing suggestions'')])"
proof -
  let ?E = "stub_env failing_provider"
  have f: "provider ?E initial_world (EditingPrompt demo_resume) =
             Inl (OtherException ''429 quota exceeded'')"
    by (simp add: stub_env_def failing_provider_def)
  have l: "\<forall>s. \<exists>m. loads ?E (''Error generating response: '' @ s) = Inl (JSONDecodeError m)"
    by (simp add: stub_env_def stub_loads_def)
  have c: "calls initial_world = []"
    by (simp add: initial_world_def)
  from generate_response_absorbs_failure [OF f, of "parse_resume demo_resume"
         "make_job_description demo_job" None "''General''" demo_resume] f l c
  show ?thesis by simp
qed

section \<open>The parser\<close>

text \<open>
  Claim C6. \<open>parse_resume\<close> is a total function of the text: it has a result for
  every text, the empty one included, and the field \<open>raw_text\<close> of the result is the
  input itself.
\<close>

theorem parse_resume_keeps_raw_text:
  "raw_text (parse_resume resume_text) = resume_text \<and>
   parse_resume [] =
     \<lparr>personal_info = [(''name'', ''John Doe''), (''email'', ''john@email.com'')],
      summary = [], experiences = [], skills = [], education = [], raw_text = []\<rparr>"
  by (simp add: parse_resume_def Let_def scan_init_def scan_line_def strip_def lower_def
      re_match_alts_def)

text \<open>
  Claim C8. Parsing is idempotent: parsing the \<open>raw_text\<close> of a parsed resume gives
  the same resume again, so the same personal info, summary, experiences, skills
  and education.
\<close>

theorem parse_resume_idempotent:
  "parse_resume (raw_text (parse_resume x)) = parse_resume x"
  by (simp add: parse_resume_def Let_def)

text \<open>
  Claim C9. For every text, the parsed resume has no experiences, no education and
  the fixed personal info with the name John Doe and the email john@email.com.
\<close>

theorem parse_resume_placeholders:
  "experiences (parse_resume resume_text) = [] \<and>
   education (parse_resume resume_text) = [] \<and>
   personal_info (parse_resume resume_text) =
     [(''name'', ''John Doe''), (''email'', ''john@email.com'')]"
  by (simp add: parse_resume_def Let_def)

text \<open>The list of skills only grows while the lines are scanned.\<close>

lemma scan_line_skills_grow: "\<exists>more. skills_acc (scan_line st raw) = skills_acc st @ more"
  by (simp add: scan_line_def Let_def)

lemma foldl_scan_line_skills_grow:
  "\<exists>more. skills_acc (foldl scan_line st ls) = skills_acc st @ more"
proof (induction ls arbitrary: st)
  case Nil
  show ?case by simp
next
  case (Cons l ls)
  obtain m1 where m1: "skills_acc (scan_line st l) = skills_acc st @ m1"
    using scan_line_skills_grow by blast
  obtain m2 where "skills_acc (foldl scan_line (scan_line st l) ls) =
                     skills_acc (scan_line st l) @ m2"
    using Cons.IH by blast
  with m1 show ?case by simp
qed

lemma scan_line_in_skills:
  assumes "current_section st = Some SkillsSection" "strip raw \<noteq> []"
    "\<not> is_section_header (strip raw)"
  shows "scan_line st raw =
           st\<lparr>skills_acc := skills_acc st @ map strip (split_on CHR '','' (strip raw))\<rparr>"
  using assms
  by (simp add: scan_line_def Let_def is_section_header_def re_match_alts_def)

lemma skills_example:
  "skills (parse_resume ''SKILLS\<newline>Python, Go, Rust\<newline>'') = [''Python'', ''Go'', ''Rust'']"
  by code_simp

text \<open>
  Claim C7. A line scanned while the active section is the skills section, not blank
  and not a section header, adds its pieces between commas, each trimmed, to the end
  of the skills list, in their order; the skills of the parsed resume contain them
  after the skills of the earlier lines. In particular the text with the line
  \<open>SKILLS\<close> followed by the line \<open>Python, Go, Rust\<close> has exactly the skills Python,
  Go and Rust, and without a job text its report has the unit results
  \<open>new_summary\<close>, \<open>design_suggestions\<close> and \<open>editing_suggestions\<close> only.
\<close>

theorem skills_lines_split_on_commas:
  "(current_section st = Some SkillsSection \<and> strip raw \<noteq> [] \<and>
    \<not> is_section_header (strip raw) \<longrightarrow>
      scan_line st raw =
        st\<lparr>skills_acc := skills_acc st @ map strip (split_on CHR '','' (strip raw))\<rparr>) \<and>
   (split_on newline resume_text = before @ raw # after \<and>
    current_section (foldl scan_line scan_init before) = Some SkillsSection \<and>
    strip raw \<noteq> [] \<and> \<not> is_section_header (strip raw) \<longrightarrow>
      (\<exists>later. skills (parse_resume resume_text) =
                 skills_acc (foldl scan_line scan_init before) @
                 map strip (split_on CHR '','' (strip raw)) @ later)) \<and>
   skills (parse_resume ''SKILLS\<newline>Python, Go, Rust\<newline>'') =
     [''Python'', ''Go'', ''Rust''] \<and>
   (only_decode_errors (loads E) \<longrightarrow>
      fields_of (optimize_resume E ''SKILLS\<newline>Python, Go, Rust\<newline>'' None w) =
        Some [''timestamp'', ''original_resume'', ''new_summary'',
              ''design_suggestions'', ''editing_suggestions''])"
proof (intro conjI impI)
  assume "current_section st = Some SkillsSection \<and> strip raw \<noteq> [] \<and>
          \<not> is_section_header (strip raw)"
  then show "scan_line st raw =
        st\<lparr>skills_acc := skills_acc st @ map strip (split_on CHR '','' (strip raw))\<rparr>"
    by (simp add: scan_line_in_skills)
next
  let ?st = "foldl scan_line scan_init before"
  assume a: "split_on newline resume_text = before @ raw # after \<and>
    current_section ?st = Some SkillsSection \<and>
    strip raw \<noteq> [] \<and> \<not> is_section_header (strip raw)"
  then have step: "scan_line ?st raw =
      ?st\<lparr>skills_acc := skills_acc ?st @ map strip (split_on CHR '','' (strip raw))\<rparr>"
    by (simp add: scan_line_in_skills)
  obtain later where
    "skills_acc (foldl scan_line (scan_line ?st raw) after) =
       skills_acc (scan_line ?st raw) @ later"
    using foldl_scan_line_skills_grow by blast
  with step a have
    "skills (parse_resume resume_text) =
       skills_acc ?st @ map strip (split_on CHR '','' (strip raw)) @ later"
    by (simp add: parse_resume_def Let_def)
  then show "\<exists>later. skills (parse_resume resume_text) =
                 skills_acc ?st @ map strip (split_on CHR '','' (strip raw)) @ later"
    by blast
next
  show "skills (parse_resume ''SKILLS\<newline>Python, Go, Rust\<newline>'') =
     [''Python'', ''Go'', ''Rust'']"
    by (rule skills_example)
next
  assume c: "only_decode_errors (loads E)"
  from optimize_resume_without_job [OF c, of None "''SKILLS\<newline>Python, Go, Rust\<newline>''" w]
  show "fields_of (optimize_resume E ''SKILLS\<newline>Python, Go, Rust\<newline>'' None w) =
        Some [''timestamp'', ''original_resume'', ''new_summary'',
              ''design_suggestions'', ''editing_suggestions'']"
    by (auto simp: fields_of_def)
qed


theorem skills_lines_split_on_commas_witness:
  "split_on newline ''SKILLS\<newline>Python, Go, Rust\<newline>'' =
     [''SKILLS''] @ ''Python, Go, Rust'' # [[]] \<and>
   current_section (foldl scan_line scan_init [''SKILLS'']) = Some SkillsSection \<and>
   strip ''Python, Go, Rust'' \<noteq> [] \<and>
   \<not> is_section_header (strip ''Python, Go, Rust'') \<and>
   skills_acc (scan_line (foldl scan_line scan_init [''SKILLS'']) ''Python, Go, Rust'') =
     [''Python'', ''Go'', ''Rust''] \<and>
   (\<exists>later. skills (parse_resume ''SKILLS\<newline>Python, Go, Rust\<newline>'') =
              skills_acc (foldl scan_line scan_init [''SKILLS'']) @
              map strip (split_on CHR '','' (strip ''Python, Go, Rust'')) @ later) \<and>
   only_decode_errors (loads (stub_env (fixed_provider ''{}''))) \<and>
   fields_of (optimize_resume (stub_env (fixed_provider ''{}''))
                ''SKILLS\<newline>Python, Go, Rust\<newline>'' None initial_world) =
     Some [''timestamp'', ''original_resume'', ''new_summary'',
           ''design_suggestions'', ''editing_suggestions'']"
proof -
  let ?st = "foldl scan_line scan_init [''SKILLS'']"
  let ?E = "stub_env (fixed_provider ''{}'')"
  note T = skills_lines_split_on_commas [of ?st "''Python, Go, Rust''"
      "''SKILLS\<newline>Python, Go, Rust\<newline>''" "[''SKILLS'']" "[[]]" ?E initial_world]
  have h1: "split_on newline ''SKILLS\<newline>Python, Go, Rust\<newline>'' =
              [''SKILLS''] @ ''Python, Go, Rust'' # [[]]"
    by code_simp
  have h2: "current_section ?st = Some SkillsSection"
    by code_simp
  have h3: "strip ''Python, Go, Rust'' \<noteq> []"
    by code_simp
  have h4: "\<not> is_section_header (strip ''Python, Go, Rust'')"
    by code_simp
  have c: "only_decode_errors (loads ?E)"
    by (simp add: stub_env_def stub_loads_contract)
  have e0: "skills_acc ?st = []"
    by code_simp
  have e1: "map strip (split_on CHR '','' (strip ''Python, Go, Rust'')) =
              [''Python'', ''Go'', ''Rust'']"
    by code_simp
  have "scan_line ?st ''Python, Go, Rust'' =
          ?st\<lparr>skills_acc := skills_acc ?st @
                 map strip (split_on CHR '','' (strip ''Python, Go, Rust''))\<rparr>"
    by (rule T [THEN conjunct1, THEN mp, OF conjI [OF h2 conjI [OF h3 h4]]])
  then have "skills_acc (scan_line ?st ''Python, Go, Rust'') =
               skills_acc ?st @ map strip (split_on CHR '','' (strip ''Python, Go, Rust''))"
    by simp
  then have a: "skills_acc (scan_line ?st ''Python, Go, Rust'') = [''Python'', ''Go'', ''Rust'']"
    unfolding e0 e1 by simp
  have b: "\<exists>later. skills (parse_resume ''SKILLS\<newline>Python, Go, Rust\<newline>'') =
              skills_acc ?st @
              map strip (split_on CHR '','' (strip ''Python, Go, Rust'')) @ later"
    by (rule T [THEN conjunct2, THEN conjunct1, THEN mp,
          OF conjI [OF h1 conjI [OF h2 conjI [OF h3 h4]]]])
  have d: "fields_of (optimize_resume ?E ''SKILLS\<newline>Python, Go, Rust\<newline>'' None
                        initial_world) =
             Some [''timestamp'', ''original_resume'', ''new_summary'',
                   ''design_suggestions'', ''editing_suggestions'']"
    by (rule T [THEN conjunct2, THEN conjunct2, THEN conjunct2, THEN mp, OF c])
  show ?thesis
    by (intro conjI h1 h2 h3 h4 a b c d)
qed

section \<open>Decoded values that are not objects\<close>

lemma editing_execute_fixed_reply:
  assumes "\<forall>w'. provider E w' (EditingPrompt body) = Inr r" "loads E r = Inr v"
  shows "fst (editing_execute E body w) = Inr v"
  using assms by (simp add: editing_execute_def generate_response_def)

text \<open>
  Claim C10. When the client's response decodes to a value that is not an object (a
  list, a number, a string), a decoding unit returns that value unchanged; it is
  neither an object with the documented keys nor the error object. The report then
  holds it: shown for \<open>editing_suggestions\<close>, whose prompt does not depend on the job.
\<close>

theorem non_mapping_value_passes_through:
  assumes "\<not> is_dict v"
  shows "(\<forall>response w'.
            generate_response E (experience_prompt resume_data job_desc) w = (response, w') \<and>
            loads E response = Inr v \<longrightarrow>
              experience_execute E resume_data job_desc w = (Inr v, w')) \<and>
         (\<forall>response w'.
            generate_response E (keyword_prompt resume_data job_desc) w = (response, w') \<and>
            loads E response = Inr v \<longrightarrow>
              keyword_execute E resume_data job_desc w = (Inr v, w')) \<and>
         (\<forall>industry response w'.
            design_industry optional_job = Inr industry \<and>
            generate_response E (design_prompt industry resume_data) w = (response, w') \<and>
            loads E response = Inr v \<longrightarrow>
              design_execute E resume_data optional_job w = (Inr v, w')) \<and>
         (\<forall>response w'.
            generate_response E (EditingPrompt body) w = (response, w') \<and>
            loads E response = Inr v \<longrightarrow>
              editing_execute E body w = (Inr v, w')) \<and>
         (\<forall>kvs. v \<noteq> JDict kvs) \<and>
         (only_decode_errors (loads E) \<and>
          (\<forall>w'. provider E w' (EditingPrompt body) = Inr r) \<and> loads E r = Inr v \<longrightarrow>
            field_of ''editing_suggestions'' (optimize_resume E body job w) = Some (Json v))"
proof (intro conjI)
  show "\<forall>kvs. v \<noteq> JDict kvs"
    using assms by (cases v) simp_all
  show "only_decode_errors (loads E) \<and>
          (\<forall>w'. provider E w' (EditingPrompt body) = Inr r) \<and> loads E r = Inr v \<longrightarrow>
            field_of ''editing_suggestions'' (optimize_resume E body job w) = Some (Json v)"
  proof
    assume a: "only_decode_errors (loads E) \<and>
          (\<forall>w'. provider E w' (EditingPrompt body) = Inr r) \<and> loads E r = Inr v"
    then have c: "only_decode_errors (loads E)" by simp
    from a have ed: "fst (editing_execute E body w') = Inr v" for w'
      by (simp add: editing_execute_fixed_reply)
    show "field_of ''editing_suggestions'' (optimize_resume E body job w) = Some (Json v)"
    proof (cases "job = None \<or> job = Some []")
      case True
      from optimize_resume_without_job [OF c True, of body w] obtain s d x w1 w2 w3 where
        e: "editing_execute E body w2 = (Inr x, w3)" and
        o: "optimize_resume E body job w =
             (Inr [(''timestamp'', Str (now_iso E)),
                   (''original_resume'', Resume (parse_resume body)),
                   (''new_summary'', Str s),
                   (''design_suggestions'', Json d),
                   (''editing_suggestions'', Json x)], w3)"
        by blast
      from e ed [of w2] have "x = v" by simp
      with o show ?thesis by (simp add: field_of_def)
    next
      case False
      then obtain jt where jt: "job = Some jt" "jt \<noteq> []" by auto
      from optimize_resume_with_job [OF c jt(2), of body w] obtain s y k d x w4 w5 where
        e: "editing_execute E body w4 = (Inr x, w5)" and
        o: "optimize_resume E body (Some jt) w =
             (Inr [(''timestamp'', Str (now_iso E)),
                   (''original_resume'', Resume (parse_resume body)),
                   (''new_summary'', Str s),
                   (''experience_matching'', Json y),
                   (''keyword_optimization'', Json k),
                   (''design_suggestions'', Json d),
                   (''editing_suggestions'', Json x)], w5)"
        by blast
      from e ed [of w4] have "x = v" by simp
      with o jt show ?thesis by (simp add: field_of_def)
    qed
  qed
qed (simp_all add: experience_execute_def keyword_execute_def design_execute_def
     editing_execute_def)

theorem non_mapping_value_passes_through_witness:
  "\<not> is_dict (JList [JInt 1, JInt 2]) \<and>
   only_decode_errors (loads (stub_env (fixed_provider ''[1, 2]''))) \<and>
   (\<forall>w'. provider (stub_env (fixed_provider ''[1, 2]'')) w' (EditingPrompt demo_resume) =
           Inr ''[1, 2]'') \<and>
   loads (stub_env (fixed_provider ''[1, 2]'')) ''[1, 2]'' = Inr (JList [JInt 1, JInt 2]) \<and>
   fst (design_execute (stub_env (fixed_provider ''[1, 2]'')) (parse_resume demo_resume) None
          initial_world) = Inr (JList [JInt 1, JInt 2]) \<and>
   field_of ''editing_suggestions''
     (optimize_resume (stub_env (fixed_provider ''[1, 2]'')) demo_resume (Some demo_job)
        initial_world) = Some (Json (JList [JInt 1, JInt 2]))"
proof -
  let ?E = "stub_env (fixed_provider ''[1, 2]'')"
  let ?v = "JList [JInt 1, JInt 2]"
  have n: "\<not> is_dict ?v" by simp
  note T = non_mapping_value_passes_through [OF n, of ?E "parse_resume demo_resume"
      "make_job_description demo_job" initial_world None demo_resume "''[1, 2]''"
      "Some demo_job"]
  have c: "only_decode_errors (loads ?E)"
    by (simp add: stub_env_def stub_loads_contract)
  have p: "\<forall>w'. provider ?E w' (EditingPrompt demo_resume) = Inr ''[1, 2]''"
    by (simp add: stub_env_def fixed_provider_def)
  have l: "loads ?E ''[1, 2]'' = Inr ?v"
    by (simp add: stub_env_def stub_loads_def)
  have g: "generate_response ?E q w = (''[1, 2]'', w\<lparr>calls := calls w @ [q]\<rparr>)" for q w
    by (simp add: generate_response_def stub_env_def fixed_provider_def)
  have di: "design_industry None = Inr ''General''"
    by (simp add: design_industry_def)
  have "design_execute ?E (parse_resume demo_resume) None initial_world =
          (Inr ?v, initial_world\<lparr>calls := calls initial_world @
             [design_prompt ''General'' (parse_resume demo_resume)]\<rparr>)"
    by (rule T [THEN conjunct2, THEN conjunct2, THEN conjunct1, rule_format,
          OF conjI [OF di conjI [OF g l]]])
  then have a: "fst (design_execute ?E (parse_resume demo_resume) None initial_world) = Inr ?v"
    by simp
  have b: "field_of ''editing_suggestions''
             (optimize_resume ?E demo_resume (Some demo_job) initial_world) = Some (Json ?v)"
    by (rule T [THEN conjunct2, THEN conjunct2, THEN conjunct2, THEN conjunct2,
          THEN conjunct2, THEN mp, OF conjI [OF c conjI [OF p l]]])
  show ?thesis
    by (intro conjI n c p l a b)
qed

end
